theory Spec2Isabelle
  imports Complex_Main "HOL-Library.AList" "HOL-Library.Sublist" "HOL-Library.Log_Nat"
begin

section \<open>JavaScript numbers and values\<close>

text \<open>
  A TypeScript \<open>number\<close> is a finite value, one of the two infinities, or NaN.
  Finite values are rationals, and the operations of this section are exact on
  finite operands; the rounding and overflow of binary64 arithmetic are defined in a
  section of their own and used for the numbers the pricer returns. The sign of zero
  is not modelled. What this section keeps is the control flow of the special values:
  every comparison with NaN is false, NaN and 0 are falsy, and the infinities compare
  and combine as IEEE 754 prescribes.
\<close>

datatype jsnum = NaN | NegInf | Fin rat | PosInf

fun js_lt :: "jsnum \<Rightarrow> jsnum \<Rightarrow> bool" where
  "js_lt NaN _ = False"
| "js_lt _ NaN = False"
| "js_lt (Fin x) (Fin y) = (x < y)"
| "js_lt NegInf NegInf = False"
| "js_lt NegInf _ = True"
| "js_lt _ NegInf = False"
| "js_lt PosInf _ = False"
| "js_lt _ PosInf = True"

definition js_gt :: "jsnum \<Rightarrow> jsnum \<Rightarrow> bool" where
  "js_gt a b = js_lt b a"

definition js_le :: "jsnum \<Rightarrow> jsnum \<Rightarrow> bool" where
  "js_le a b = (js_lt a b \<or> (a = b \<and> a \<noteq> NaN))"

definition js_ge :: "jsnum \<Rightarrow> jsnum \<Rightarrow> bool" where
  "js_ge a b = js_le b a"

text \<open>Strict inequality \<open>a !== b\<close> on numbers: NaN differs from everything, itself included.\<close>

definition js_neq :: "jsnum \<Rightarrow> jsnum \<Rightarrow> bool" where
  "js_neq a b = (a = NaN \<or> b = NaN \<or> a \<noteq> b)"

fun js_neg :: "jsnum \<Rightarrow> jsnum" where
  "js_neg NaN = NaN"
| "js_neg NegInf = PosInf"
| "js_neg PosInf = NegInf"
| "js_neg (Fin x) = Fin (- x)"

fun js_add :: "jsnum \<Rightarrow> jsnum \<Rightarrow> jsnum" where
  "js_add NaN _ = NaN"
| "js_add _ NaN = NaN"
| "js_add (Fin x) (Fin y) = Fin (x + y)"
| "js_add PosInf NegInf = NaN"
| "js_add NegInf PosInf = NaN"
| "js_add PosInf _ = PosInf"
| "js_add NegInf _ = NegInf"
| "js_add _ PosInf = PosInf"
| "js_add _ NegInf = NegInf"

definition js_sub :: "jsnum \<Rightarrow> jsnum \<Rightarrow> jsnum" where
  "js_sub a b = js_add a (js_neg b)"

text \<open>The sign of a non-NaN number: \<open>-1\<close>, \<open>0\<close> or \<open>1\<close>.\<close>

fun js_sign :: "jsnum \<Rightarrow> int" where
  "js_sign NaN = 0"
| "js_sign NegInf = - 1"
| "js_sign PosInf = 1"
| "js_sign (Fin x) = (if x < 0 then - 1 else if x = 0 then 0 else 1)"

definition inf_of_sign :: "int \<Rightarrow> jsnum" where
  "inf_of_sign s = (if s = 0 then NaN else if s < 0 then NegInf else PosInf)"

fun js_mul :: "jsnum \<Rightarrow> jsnum \<Rightarrow> jsnum" where
  "js_mul NaN _ = NaN"
| "js_mul _ NaN = NaN"
| "js_mul (Fin x) (Fin y) = Fin (x * y)"
| "js_mul a b = inf_of_sign (js_sign a * js_sign b)"

text \<open>
  Division. A finite non-zero numerator over zero is an infinity (zero is taken as
  \<open>+0\<close>), \<open>0 / 0\<close> and \<open>\<infinity> / \<infinity>\<close> are NaN, and a finite numerator over an infinity is 0.
\<close>

fun js_div :: "jsnum \<Rightarrow> jsnum \<Rightarrow> jsnum" where
  "js_div NaN _ = NaN"
| "js_div _ NaN = NaN"
| "js_div (Fin x) (Fin y) = (if y = 0 then inf_of_sign (js_sign (Fin x)) else Fin (x / y))"
| "js_div (Fin x) _ = Fin 0"
| "js_div a (Fin y) = inf_of_sign (js_sign a * (if y < 0 then - 1 else 1))"
| "js_div _ _ = NaN"

fun js_abs :: "jsnum \<Rightarrow> jsnum" where
  "js_abs NaN = NaN"
| "js_abs NegInf = PosInf"
| "js_abs PosInf = PosInf"
| "js_abs (Fin x) = Fin \<bar>x\<bar>"

text \<open>Truthiness of a number: everything but 0 and NaN.\<close>

fun truthy :: "jsnum \<Rightarrow> bool" where
  "truthy NaN = False"
| "truthy (Fin x) = (x \<noteq> 0)"
| "truthy _ = True"

text \<open>\<open>Math.round\<close> on a finite value rounds half up, towards \<open>+\<infinity>\<close>.\<close>

definition math_round :: "rat \<Rightarrow> rat" where
  "math_round x = of_int \<lfloor>x + 1 / 2\<rfloor>"

text \<open>
  A property of a loosely typed record read by the code: absent (\<open>undefined\<close>),
  \<open>null\<close>, or a number. \<open>a ?? b\<close> is \<open>nc a b\<close>.
\<close>

datatype jv = Undefined | Null | Num jsnum

fun nc :: "jv \<Rightarrow> jv \<Rightarrow> jv" where
  "nc Undefined b = b"
| "nc Null b = b"
| "nc a b = a"

section \<open>Classification rules\<close>

datatype DetailedRecommendation =
  ENTRY | HOLD | EXIT | AVOID | SCALE | PROFIT_BOOKING | CHAIN_WARNING | VALUE_BREACH

datatype side = CALL | PUT

definition getRecommendation :: "jsnum \<Rightarrow> DetailedRecommendation" where
  "getRecommendation valuePercent =
     (if js_le valuePercent (Fin 10) then ENTRY
      else if js_le valuePercent (Fin 15) then HOLD
      else if js_le valuePercent (Fin 20) then HOLD
      else AVOID)"

definition getDetailedRecommendation :: "jsnum \<Rightarrow> jsnum \<Rightarrow> jsnum \<Rightarrow> DetailedRecommendation" where
  "getDetailedRecommendation valuePercent distanceFromATM gap =
     (let isNearATM = js_le distanceFromATM (Fin 2);
          hasGoodGap = js_le gap (Fin 100)
      in if js_gt valuePercent (Fin 25) then EXIT
         else if js_gt valuePercent (Fin 20) then VALUE_BREACH
         else if js_le valuePercent (Fin 10) \<and> isNearATM \<and> hasGoodGap then ENTRY
         else if js_le valuePercent (Fin 10) \<and> isNearATM then PROFIT_BOOKING
         else if js_le valuePercent (Fin 15) \<and> isNearATM then SCALE
         else if js_le valuePercent (Fin 15) \<and> \<not> isNearATM then HOLD
         else if js_le valuePercent (Fin 20) \<and> \<not> isNearATM \<and> \<not> hasGoodGap then CHAIN_WARNING
         else if js_le valuePercent (Fin 20) then HOLD
         else AVOID)"

text \<open>
  The priority list of the specification, written from its words: each rule is tried
  in order and the first that applies gives the label.
\<close>

definition nearATM :: "jsnum \<Rightarrow> bool" where
  "nearATM distanceFromATM = js_le distanceFromATM (Fin 2)"

definition goodGap :: "jsnum \<Rightarrow> bool" where
  "goodGap gap = js_le gap (Fin 100)"

definition priority_rules :: "jsnum \<Rightarrow> jsnum \<Rightarrow> jsnum \<Rightarrow> (bool \<times> DetailedRecommendation) list" where
  "priority_rules v d g =
     [(js_gt v (Fin 25), EXIT),
      (js_gt v (Fin 20), VALUE_BREACH),
      (js_le v (Fin 10) \<and> nearATM d \<and> goodGap g, ENTRY),
      (js_le v (Fin 10) \<and> nearATM d, PROFIT_BOOKING),
      (js_le v (Fin 15) \<and> nearATM d, SCALE),
      (js_le v (Fin 15), HOLD),
      (js_le v (Fin 20) \<and> \<not> nearATM d \<and> \<not> goodGap g, CHAIN_WARNING),
      (js_le v (Fin 20), HOLD)]"

fun first_rule :: "(bool \<times> DetailedRecommendation) list \<Rightarrow> DetailedRecommendation" where
  "first_rule [] = AVOID"
| "first_rule ((c, l) # rs) = (if c then l else first_rule rs)"

section \<open>Sorting with a comparator\<close>

text \<open>
  \<open>Array.prototype.sort\<close> with a comparator function: a positive result puts the
  first argument after the second, and a NaN result counts as 0. The sort is stable,
  so for a comparator that orders the elements consistently the result is the one an
  insertion sort gives.
\<close>

fun insert_cmp :: "('a \<Rightarrow> 'a \<Rightarrow> jsnum) \<Rightarrow> 'a \<Rightarrow> 'a list \<Rightarrow> 'a list" where
  "insert_cmp cmp x [] = [x]"
| "insert_cmp cmp x (y # ys) =
     (if js_gt (cmp x y) (Fin 0) then y # insert_cmp cmp x ys else x # y # ys)"

definition js_sort :: "('a \<Rightarrow> 'a \<Rightarrow> jsnum) \<Rightarrow> 'a list \<Rightarrow> 'a list" where
  "js_sort cmp xs = foldr (insert_cmp cmp) xs []"

section \<open>Quote normalizer\<close>

text \<open>
  Rows are loosely typed objects. The model gives a row every property the code
  reads; a price or open-interest property is absent, \<open>null\<close> or a number. A strike
  price is a finite number or \<open>None\<close>, which stands for \<open>undefined\<close>, \<open>null\<close>
  and NaN alike: the code skips all three in the same places. The feed is JSON, which
  has no infinite strike. The input is a list, so the guard on a missing or
  non-array argument never fires.
\<close>

record quote =
  bidprice :: jv
  askprice :: jv
  quote_ltp :: jv

record row =
  strike_price :: "rat option"
  option_type :: "string option"
  symbol :: "string option"
  ltp :: jv
  open_interest :: jv
  oi :: jv
  bid_price :: jv
  bid :: jv
  ask_price :: jv
  ask :: jv
  call_ltp :: jv
  call_oi :: jv
  call_bid :: jv
  call_ask :: jv
  put_ltp :: jv
  put_oi :: jv
  put_bid :: jv
  put_ask :: jv
  CE :: "quote option"
  PE :: "quote option"

text \<open>The object \<open>{ strike_price: strike }\<close>.\<close>

definition new_entry :: "rat \<Rightarrow> row" where
  "new_entry strike =
     \<lparr>strike_price = Some strike, option_type = None, symbol = None,
      ltp = Undefined, open_interest = Undefined, oi = Undefined,
      bid_price = Undefined, bid = Undefined, ask_price = Undefined, ask = Undefined,
      call_ltp = Undefined, call_oi = Undefined, call_bid = Undefined, call_ask = Undefined,
      put_ltp = Undefined, put_oi = Undefined, put_bid = Undefined, put_ask = Undefined,
      CE = None, PE = None\<rparr>"

text \<open>Optional chaining into the nested quote: \<open>entry.CE?.bidprice\<close>.\<close>

definition opt_field :: "(quote \<Rightarrow> jv) \<Rightarrow> quote option \<Rightarrow> jv" where
  "opt_field f q = (case q of None \<Rightarrow> Undefined | Some x \<Rightarrow> f x)"

definition isCall :: "row \<Rightarrow> bool" where
  "isCall item =
     (option_type item = Some ''CE''
      \<or> (case symbol item of None \<Rightarrow> False | Some s \<Rightarrow> sublist ''CE'' s))"

definition merge_call :: "row \<Rightarrow> row \<Rightarrow> row" where
  "merge_call item entry = entry
     \<lparr>call_ltp := nc (ltp item) (call_ltp entry),
      call_oi := nc (nc (open_interest item) (oi item)) (call_oi entry),
      call_bid := nc (nc (bid_price item) (bid item)) (call_bid entry),
      call_ask := nc (nc (ask_price item) (ask item)) (call_ask entry),
      CE := Some
        \<lparr>bidprice = nc (nc (bid_price item) (bid item)) (opt_field bidprice (CE entry)),
         askprice = nc (nc (ask_price item) (ask item)) (opt_field askprice (CE entry)),
         quote_ltp = nc (ltp item) (opt_field quote_ltp (CE entry))\<rparr>\<rparr>"

definition merge_put :: "row \<Rightarrow> row \<Rightarrow> row" where
  "merge_put item entry = entry
     \<lparr>put_ltp := nc (ltp item) (put_ltp entry),
      put_oi := nc (nc (open_interest item) (oi item)) (put_oi entry),
      put_bid := nc (nc (bid_price item) (bid item)) (put_bid entry),
      put_ask := nc (nc (ask_price item) (ask item)) (put_ask entry),
      PE := Some
        \<lparr>bidprice = nc (nc (bid_price item) (bid item)) (opt_field bidprice (PE entry)),
         askprice = nc (nc (ask_price item) (ask item)) (opt_field askprice (PE entry)),
         quote_ltp = nc (ltp item) (opt_field quote_ltp (PE entry))\<rparr>\<rparr>"

text \<open>
  One round of the \<open>forEach\<close>. \<open>strikeMap\<close> is an association list in insertion
  order; a strike seen for the first time gets a fresh entry at the end, and the
  entry of the strike is then updated in place.
\<close>

definition add_item :: "(rat \<times> row) list \<Rightarrow> row \<Rightarrow> (rat \<times> row) list" where
  "add_item strikeMap item =
     (case strike_price item of
        None \<Rightarrow> strikeMap
      | Some strike \<Rightarrow>
          let entry = (case map_of strikeMap strike of
                         None \<Rightarrow> new_entry strike
                       | Some e \<Rightarrow> e)
          in AList.update strike
               (if isCall item then merge_call item entry else merge_put item entry)
               strikeMap)"

definition strike_num :: "row \<Rightarrow> jsnum" where
  "strike_num r = (case strike_price r of None \<Rightarrow> NaN | Some x \<Rightarrow> Fin x)"

definition by_strike :: "row \<Rightarrow> row \<Rightarrow> jsnum" where
  "by_strike a b = js_sub (strike_num a) (strike_num b)"

definition already_transformed :: "row list \<Rightarrow> bool" where
  "already_transformed rawData =
     (\<exists>d \<in> set rawData. call_ltp d \<noteq> Undefined \<or> put_ltp d \<noteq> Undefined)"

definition transformOptionDataForButterfly :: "row list \<Rightarrow> row list" where
  "transformOptionDataForButterfly rawData =
     (if already_transformed rawData
      then filter (\<lambda>d. strike_price d \<noteq> Some (- 1)) rawData
      else
        let optionsOnly = filter (\<lambda>item. strike_price item \<noteq> Some (- 1)) rawData;
            strikeMap = foldl add_item [] optionsOnly
        in js_sort by_strike (map snd strikeMap))"

section \<open>Butterfly pricer\<close>

record ButterflyResult =
  rate :: rat
  firstLegPremium :: rat

record leg_prices =
  leg_bid :: "rat option"
  leg_ask :: "rat option"
  leg_ltp :: "rat option"

definition toNumberOrNull :: "jv \<Rightarrow> rat option" where
  "toNumberOrNull v = (case v of Num (Fin n) \<Rightarrow> Some n | _ \<Rightarrow> None)"

definition extract_quote :: "row \<Rightarrow> side \<Rightarrow> leg_prices" where
  "extract_quote option opType =
     (case opType of
        CALL \<Rightarrow>
          \<lparr>leg_bid = toNumberOrNull
             (nc (nc (call_bid option) (opt_field bidprice (CE option))) (call_bid option)),
           leg_ask = toNumberOrNull
             (nc (nc (call_ask option) (opt_field askprice (CE option))) (call_ask option)),
           leg_ltp = toNumberOrNull (nc (call_ltp option) (opt_field quote_ltp (CE option)))\<rparr>
      | PUT \<Rightarrow>
          \<lparr>leg_bid = toNumberOrNull
             (nc (nc (put_bid option) (opt_field bidprice (PE option))) (put_bid option)),
           leg_ask = toNumberOrNull
             (nc (nc (put_ask option) (opt_field askprice (PE option))) (put_ask option)),
           leg_ltp = toNumberOrNull (nc (put_ltp option) (opt_field quote_ltp (PE option)))\<rparr>)"

text \<open>\<open>a ?? b\<close> on values that are a number or \<open>null\<close>.\<close>

definition or_else :: "rat option \<Rightarrow> rat option \<Rightarrow> rat option" where
  "or_else a b = (case a of None \<Rightarrow> b | Some x \<Rightarrow> Some x)"

definition find_strike :: "row list \<Rightarrow> rat \<Rightarrow> row option" where
  "find_strike optionData k = find (\<lambda>r. strike_price r = Some k) optionData"

definition calculateButterflyRate ::
  "rat \<Rightarrow> rat \<Rightarrow> rat \<Rightarrow> row list \<Rightarrow> side \<Rightarrow> ButterflyResult option" where
  "calculateButterflyRate lowerStrike middleStrike upperStrike optionData ty =
     (case (find_strike optionData lowerStrike,
            find_strike optionData middleStrike,
            find_strike optionData upperStrike) of
        (Some lowerOption, Some middleOption, Some upperOption) \<Rightarrow>
          let low = extract_quote lowerOption ty;
              mid = extract_quote middleOption ty;
              up = extract_quote upperOption ty
          in (case (or_else (leg_ask low) (leg_ltp low),
                    or_else (leg_bid mid) (leg_ltp mid),
                    or_else (leg_ask up) (leg_ltp up)) of
                (Some lowerAsk, Some middleBid, Some upperAsk) \<Rightarrow>
                  Some \<lparr>rate = lowerAsk - 2 * middleBid + upperAsk,
                        firstLegPremium = (if ty = CALL then lowerAsk else upperAsk)\<rparr>
              | _ \<Rightarrow> None)
      | _ \<Rightarrow> None)"

definition calculateValuePercent :: "jsnum \<Rightarrow> jsnum \<Rightarrow> jsnum" where
  "calculateValuePercent butterflyRate premium1 =
     (if js_le premium1 (Fin 0) then Fin 0
      else js_mul (js_div butterflyRate premium1) (Fin 100))"

section \<open>Chain builder\<close>

text \<open>
  The strikes of the chain: \<open>filter(item => item.strike_price > 0)\<close> and
  \<open>map(item => item.strike_price)\<close>.
\<close>

definition positive_strikes :: "row list \<Rightarrow> rat list" where
  "positive_strikes optionData =
     concat (map (\<lambda>item. case strike_price item of
                              None \<Rightarrow> []
                            | Some k \<Rightarrow> if k > 0 then [k] else []) optionData)"

definition ascending :: "rat \<Rightarrow> rat \<Rightarrow> jsnum" where
  "ascending a b = Fin (a - b)"


text \<open>
  The ATM strike: \<open>reduce\<close> without an initial value over a non-empty list, the
  first strike seeding the accumulator.
\<close>

definition closer :: "jsnum \<Rightarrow> rat \<Rightarrow> rat \<Rightarrow> rat" where
  "closer spotPrice prev cur =
     (if js_lt (js_abs (js_sub (Fin cur) spotPrice)) (js_abs (js_sub (Fin prev) spotPrice))
      then cur else prev)"

definition atmStrike :: "rat \<Rightarrow> rat list \<Rightarrow> jsnum \<Rightarrow> rat" where
  "atmStrike first rest spotPrice = foldl (closer spotPrice) first rest"

record ButterflyData =
  strike :: rat
  premium :: jsnum
  quoted_bid :: jsnum
  quoted_ask :: jsnum
  isATM :: bool
  gaps :: "rat \<rightharpoonup> (rat \<times> jsnum)"



definition legs :: "side \<Rightarrow> rat \<Rightarrow> rat \<Rightarrow> rat \<times> rat \<times> rat" where
  "legs ty base g =
     (case ty of
        CALL \<Rightarrow> (base, base + g, base + g * 2)
      | PUT \<Rightarrow> (base - g * 2, base - g, base))"




section \<open>Strategy ranker\<close>

text \<open>
  A shortlist entry. The label \<open>strikeCombo\<close> is the three strikes of \<open>strikes\<close>
  printed with dashes between them and is left out. The default arguments
  (\<open>maxValuePercent = 20\<close>, and \<open>gaps = [50, 100, 150, 200]\<close> in the chain builder)
  are passed by the caller.
\<close>

record ButterflyStrategy =
  otype :: side
  strikes :: "rat \<times> rat \<times> rat"
  gap :: rat
  legPremium :: rat
  butterflyRate :: rat
  valuePercent :: jsnum
  distanceFromATM :: rat
  recommendation :: DetailedRecommendation
  isNearATM :: bool
  hasGoodGap :: bool

definition has_strike :: "row list \<Rightarrow> rat \<Rightarrow> bool" where
  "has_strike optionData k = (\<exists>d \<in> set optionData. strike_price d = Some k)"

text \<open>
  The body of the innermost loop: the strategy pushed for one side, gap and base
  strike, or \<open>None\<close> when the round ends without a push.
\<close>

definition candidate ::
  "row list \<Rightarrow> rat \<Rightarrow> jsnum \<Rightarrow> side \<Rightarrow> rat \<Rightarrow> rat \<Rightarrow> ButterflyStrategy option" where
  "candidate optionData atm maxValuePercent ty g baseStrike =
     (case legs ty baseStrike g of
        (lowerStrike, middleStrike, upperStrike) \<Rightarrow>
          if (case ty of CALL \<Rightarrow> lowerStrike < atm | PUT \<Rightarrow> upperStrike > atm) then None
          else if \<not> (has_strike optionData lowerStrike
                      \<and> has_strike optionData middleStrike
                      \<and> has_strike optionData upperStrike) then None
          else (case calculateButterflyRate lowerStrike middleStrike upperStrike optionData ty of
                  None \<Rightarrow> None
                | Some result \<Rightarrow>
                    if rate result > 0 \<and> rate result < firstLegPremium result * (1 / 2)
                    then
                      let vp = calculateValuePercent
                                 (Fin (rate result)) (Fin (firstLegPremium result));
                          dist = \<bar>lowerStrike - atm\<bar>
                      in if js_le vp maxValuePercent \<and> js_gt vp (Fin 0)
                         then Some
                           \<lparr>otype = ty,
                            strikes = (lowerStrike, middleStrike, upperStrike),
                            gap = g,
                            legPremium = firstLegPremium result,
                            butterflyRate = rate result,
                            valuePercent = vp,
                            distanceFromATM = math_round (dist / 50),
                            recommendation = getRecommendation vp,
                            isNearATM = (dist \<le> 100),
                            hasGoodGap = (g \<le> 100)\<rparr>
                         else None
                    else None))"

definition pushed ::
  "row list \<Rightarrow> rat \<Rightarrow> jsnum \<Rightarrow> side \<Rightarrow> rat \<Rightarrow> rat \<Rightarrow> ButterflyStrategy list" where
  "pushed optionData atm maxValuePercent ty g baseStrike =
     (case candidate optionData atm maxValuePercent ty g baseStrike of
        None \<Rightarrow> []
      | Some s \<Rightarrow> [s])"

definition by_value_then_distance :: "ButterflyStrategy \<Rightarrow> ButterflyStrategy \<Rightarrow> jsnum" where
  "by_value_then_distance a b =
     (if js_neq (valuePercent a) (valuePercent b)
      then js_sub (valuePercent a) (valuePercent b)
      else Fin (distanceFromATM a - distanceFromATM b))"

definition all_strategies :: "row list \<Rightarrow> rat list \<Rightarrow> rat \<Rightarrow> jsnum \<Rightarrow> ButterflyStrategy list" where
  "all_strategies optionData ks atm maxValuePercent =
     concat (map (\<lambda>ty.
       concat (map (\<lambda>g.
         concat (map (pushed optionData atm maxValuePercent ty g) ks))
       [50, 100, 150, 200]))
     [CALL, PUT])"

definition findBestStrategies :: "row list \<Rightarrow> jsnum \<Rightarrow> jsnum \<Rightarrow> ButterflyStrategy list" where
  "findBestStrategies rawOptionData spotPrice maxValuePercent =
     (let optionData = transformOptionDataForButterfly rawOptionData
      in if optionData = [] \<or> \<not> truthy spotPrice then []
         else (case js_sort ascending (positive_strikes optionData) of
                 [] \<Rightarrow> []
               | first # rest \<Rightarrow>
                   js_sort by_value_then_distance
                     (all_strategies optionData (first # rest)
                        (atmStrike first rest spotPrice) maxValuePercent)))"

definition findBestTrades :: "row list \<Rightarrow> jsnum \<Rightarrow> ButterflyStrategy list" where
  "findBestTrades rawOptionData spotPrice =
     take 8
       (filter (\<lambda>strategy. js_le (valuePercent strategy) (Fin 15)
                           \<and> distanceFromATM strategy \<le> 2
                           \<and> gap strategy \<le> 100)
          (findBestStrategies rawOptionData spotPrice (Fin 15)))"


text \<open>
  The order of the shortlist: a lower value percentage first, and among equal value
  percentages a lower distance from the ATM strike first.
\<close>

definition ranked_before :: "ButterflyStrategy \<Rightarrow> ButterflyStrategy \<Rightarrow> bool" where
  "ranked_before a b =
     (js_lt (valuePercent a) (valuePercent b)
      \<or> (valuePercent a = valuePercent b \<and> distanceFromATM a \<le> distanceFromATM b))"

section \<open>Example chains\<close>

text \<open>
  A row of the raw feed: one contract of the given side at a strike, with its bid,
  ask and last traded price.
\<close>

definition feed_row :: "string \<Rightarrow> rat \<Rightarrow> jv \<Rightarrow> jv \<Rightarrow> jv \<Rightarrow> row" where
  "feed_row ot k b a l =
     (new_entry k)\<lparr>option_type := Some ot, bid_price := b, ask_price := a, ltp := l\<rparr>"

definition price :: "rat \<Rightarrow> jv" where
  "price x = Num (Fin x)"

text \<open>Calls at four strikes and puts at three, around a spot of 24070.\<close>

definition example_chain :: "row list" where
  "example_chain =
     [feed_row ''CE'' 24000 (price 130) (price 140) (price 135),
      feed_row ''CE'' 24050 (price 95) (price 100) (price 98),
      feed_row ''CE'' 24100 (price 70) (price 72) (price 71),
      feed_row ''CE'' 24150 (price 43) (price 45) (price 44),
      feed_row ''PE'' 24050 (price 60) (price 62) (price 61),
      feed_row ''PE'' 24000 (price 40) (price 41) (price 40),
      feed_row ''PE'' 23950 (price 22) (price 23) (price 22)]"

definition example_call :: ButterflyStrategy where
  "example_call =
     \<lparr>otype = CALL, strikes = (24050, 24100, 24150), gap = 50, legPremium = 100,
      butterflyRate = 5, valuePercent = Fin 5, distanceFromATM = 0,
      recommendation = ENTRY, isNearATM = True, hasGoodGap = True\<rparr>"

definition example_put :: ButterflyStrategy where
  "example_put =
     \<lparr>otype = PUT, strikes = (23950, 24000, 24050), gap = 50, legPremium = 62,
      butterflyRate = 5, valuePercent = Fin (250 / 31), distanceFromATM = 2,
      recommendation = ENTRY, isNearATM = True, hasGoodGap = True\<rparr>"

section \<open>Quotes and leg prices\<close>

text \<open>
  The quotes of a strike record for one side: the flat field, or the field of the
  nested quote when the flat one is absent, provided it is a finite number.
\<close>

definition side_bid :: "side \<Rightarrow> row \<Rightarrow> jv" where
  "side_bid ty = (case ty of CALL \<Rightarrow> call_bid | PUT \<Rightarrow> put_bid)"

definition side_ask :: "side \<Rightarrow> row \<Rightarrow> jv" where
  "side_ask ty = (case ty of CALL \<Rightarrow> call_ask | PUT \<Rightarrow> put_ask)"

definition side_ltp :: "side \<Rightarrow> row \<Rightarrow> jv" where
  "side_ltp ty = (case ty of CALL \<Rightarrow> call_ltp | PUT \<Rightarrow> put_ltp)"

definition side_quote :: "side \<Rightarrow> row \<Rightarrow> quote option" where
  "side_quote ty = (case ty of CALL \<Rightarrow> CE | PUT \<Rightarrow> PE)"

definition bid_of :: "row \<Rightarrow> side \<Rightarrow> rat option" where
  "bid_of r ty = toNumberOrNull (nc (side_bid ty r) (opt_field bidprice (side_quote ty r)))"

definition ask_of :: "row \<Rightarrow> side \<Rightarrow> rat option" where
  "ask_of r ty = toNumberOrNull (nc (side_ask ty r) (opt_field askprice (side_quote ty r)))"

definition ltp_of :: "row \<Rightarrow> side \<Rightarrow> rat option" where
  "ltp_of r ty = toNumberOrNull (nc (side_ltp ty r) (opt_field quote_ltp (side_quote ty r)))"

text \<open>
  The price of a bought leg is the ask, falling back to the last traded price; the
  price of the sold leg is the bid, with the same fallback.
\<close>

definition bought_leg_price :: "row \<Rightarrow> side \<Rightarrow> rat option" where
  "bought_leg_price r ty = (case ask_of r ty of Some a \<Rightarrow> Some a | None \<Rightarrow> ltp_of r ty)"

definition sold_leg_price :: "row \<Rightarrow> side \<Rightarrow> rat option" where
  "sold_leg_price r ty = (case bid_of r ty of Some b \<Rightarrow> Some b | None \<Rightarrow> ltp_of r ty)"

text \<open>Three strike records with a call ask of 100, a call bid of 40 and a call ask of 95.\<close>

definition pricer_example :: "row list" where
  "pricer_example =
     [(new_entry 24000)\<lparr>call_ask := price 100\<rparr>,
      (new_entry 24050)\<lparr>call_bid := price 40\<rparr>,
      (new_entry 24100)\<lparr>call_ask := price 95\<rparr>]"

section \<open>Per-strike premium\<close>





section \<open>Merging of feed rows\<close>

text \<open>
  What a feed row carries for its side: the bid, the ask and the open interest, each
  under its first or its second name.
\<close>

definition item_bid :: "row \<Rightarrow> jv" where
  "item_bid item = nc (bid_price item) (bid item)"

definition item_ask :: "row \<Rightarrow> jv" where
  "item_ask item = nc (ask_price item) (ask item)"

definition item_oi :: "row \<Rightarrow> jv" where
  "item_oi item = nc (open_interest item) (oi item)"

text \<open>The feed rows of one strike, calls and puts, in the order of the feed.\<close>

definition call_rows :: "rat \<Rightarrow> row list \<Rightarrow> row list" where
  "call_rows k rawData = filter (\<lambda>item. strike_price item = Some k \<and> isCall item) rawData"

definition put_rows :: "rat \<Rightarrow> row list \<Rightarrow> row list" where
  "put_rows k rawData = filter (\<lambda>item. strike_price item = Some k \<and> \<not> isCall item) rawData"

text \<open>
  The last value of a sequence that is neither absent nor null, \<open>undefined\<close> when
  there is none: a later absent value does not overwrite an earlier one.
\<close>

definition last_non_null :: "jv list \<Rightarrow> jv" where
  "last_non_null vs = foldl (\<lambda>acc v. nc v acc) Undefined vs"

text \<open>
  A strike record merged from the feed rows of strike \<open>k\<close>: every call field holds
  the last non-null value among the call rows, every put field among the put rows.
\<close>

definition merged_from :: "rat \<Rightarrow> row list \<Rightarrow> row \<Rightarrow> bool" where
  "merged_from k rawData e =
     (strike_price e = Some k
      \<and> call_ltp e = last_non_null (map ltp (call_rows k rawData))
      \<and> call_oi e = last_non_null (map item_oi (call_rows k rawData))
      \<and> call_bid e = last_non_null (map item_bid (call_rows k rawData))
      \<and> call_ask e = last_non_null (map item_ask (call_rows k rawData))
      \<and> put_ltp e = last_non_null (map ltp (put_rows k rawData))
      \<and> put_oi e = last_non_null (map item_oi (put_rows k rawData))
      \<and> put_bid e = last_non_null (map item_bid (put_rows k rawData))
      \<and> put_ask e = last_non_null (map item_ask (put_rows k rawData)))"

definition strike_below :: "row \<Rightarrow> row \<Rightarrow> bool" where
  "strike_below a b =
     (case (strike_price a, strike_price b) of
        (Some x, Some y) \<Rightarrow> x < y
      | _ \<Rightarrow> False)"

text \<open>Two call rows of one strike: the first carries only a bid, the second only an ask.\<close>

definition split_rows :: "rat \<Rightarrow> jsnum \<Rightarrow> jsnum \<Rightarrow> row list" where
  "split_rows k b a =
     [feed_row ''CE'' k (Num b) Undefined Undefined,
      feed_row ''CE'' k Undefined (Num a) Undefined]"

text \<open>The state of \<open>strikeMap\<close> after the rows \<open>items\<close>.\<close>

definition map_inv :: "row list \<Rightarrow> (rat \<times> row) list \<Rightarrow> bool" where
  "map_inv items m =
     (distinct (map fst m)
      \<and> (\<forall>k. map_of m k = None \<longleftrightarrow> (\<forall>i \<in> set items. strike_price i \<noteq> Some k))
      \<and> (\<forall>k e. map_of m k = Some e \<longrightarrow> merged_from k items e))"

text \<open>The same order, equal strikes allowed.\<close>

definition strike_le :: "row \<Rightarrow> row \<Rightarrow> bool" where
  "strike_le a b =
     (case (strike_price a, strike_price b) of
        (Some x, Some y) \<Rightarrow> x \<le> y
      | _ \<Rightarrow> False)"

section \<open>Binary64 arithmetic\<close>

text \<open>
  The numbers of the program are IEEE 754 binary64 values, and every arithmetic
  operation rounds its exact result to the nearest of them, ties to the even
  significand, and to an infinity when the rounded value reaches \<open>2^1024\<close>. The
  properties of the ranker and the chain builder are about tests on stored values and
  are stated over exact arithmetic; the numbers the pricer returns are stated over
  binary64 arithmetic, defined here. The prices a chain holds are binary64 numbers;
  the operations below are defined on every rational.
\<close>

definition pow2 :: "int \<Rightarrow> rat" where
  "pow2 e = (if 0 \<le> e then 2 ^ nat e else 1 / 2 ^ nat (- e))"

text \<open>Rounding to the nearest integer, a tie to the even one.\<close>

definition round_even :: "rat \<Rightarrow> int" where
  "round_even x =
     (let f = \<lfloor>x\<rfloor>; d = x - of_int f
      in if d < 1 / 2 then f
         else if 1 / 2 < d then f + 1
         else if even f then f else f + 1)"

text \<open>
  The binary exponent of a positive number: the \<open>e\<close> with \<open>2^e \<le> x < 2^(e + 1)\<close>,
  found from the bit lengths of numerator and denominator.
\<close>

definition exponent_of :: "rat \<Rightarrow> int" where
  "exponent_of x =
     (case quotient_of x of
        (p, q) \<Rightarrow> let e = bitlen p - bitlen q in if pow2 e \<le> x then e else e - 1)"

text \<open>
  The binary64 value nearest to \<open>x\<close>. The significand has 53 bits, so the spacing at
  exponent \<open>e\<close> is \<open>2^(e - 52)\<close>, and never less than \<open>2^(-1074)\<close>, the spacing of the
  subnormal numbers.
\<close>

definition binary64 :: "rat \<Rightarrow> jsnum" where
  "binary64 x =
     (if x = 0 then Fin 0
      else
        let a = \<bar>x\<bar>;
            e = max (exponent_of a - 52) (- 1074);
            r = of_int (round_even (a / pow2 e)) * pow2 e
        in if 1024 \<le> exponent_of r then (if 0 < x then PosInf else NegInf)
           else Fin (if 0 < x then r else - r))"

text \<open>
  The four operations on numbers: on finite operands the exact result rounded, on
  the others as before.
\<close>

definition d_add :: "jsnum \<Rightarrow> jsnum \<Rightarrow> jsnum" where
  "d_add a b = (case (a, b) of (Fin x, Fin y) \<Rightarrow> binary64 (x + y) | _ \<Rightarrow> js_add a b)"

definition d_sub :: "jsnum \<Rightarrow> jsnum \<Rightarrow> jsnum" where
  "d_sub a b = (case (a, b) of (Fin x, Fin y) \<Rightarrow> binary64 (x - y) | _ \<Rightarrow> js_sub a b)"

definition d_mul :: "jsnum \<Rightarrow> jsnum \<Rightarrow> jsnum" where
  "d_mul a b = (case (a, b) of (Fin x, Fin y) \<Rightarrow> binary64 (x * y) | _ \<Rightarrow> js_mul a b)"

definition d_div :: "jsnum \<Rightarrow> jsnum \<Rightarrow> jsnum" where
  "d_div a b =
     (case (a, b) of
        (Fin x, Fin y) \<Rightarrow> if y = 0 then js_div a b else binary64 (x / y)
      | _ \<Rightarrow> js_div a b)"

text \<open>
  The pricer and the value percentage with the arithmetic of the program. The rate
  can overflow to an infinity, so it is a number in the wide sense.
\<close>

record ButterflyResult64 =
  rate64 :: jsnum
  firstLegPremium64 :: rat

definition calculateButterflyRate_binary64 ::
  "rat \<Rightarrow> rat \<Rightarrow> rat \<Rightarrow> row list \<Rightarrow> side \<Rightarrow> ButterflyResult64 option" where
  "calculateButterflyRate_binary64 lowerStrike middleStrike upperStrike optionData ty =
     (case (find_strike optionData lowerStrike,
            find_strike optionData middleStrike,
            find_strike optionData upperStrike) of
        (Some lowerOption, Some middleOption, Some upperOption) \<Rightarrow>
          let low = extract_quote lowerOption ty;
              mid = extract_quote middleOption ty;
              up = extract_quote upperOption ty
          in (case (or_else (leg_ask low) (leg_ltp low),
                    or_else (leg_bid mid) (leg_ltp mid),
                    or_else (leg_ask up) (leg_ltp up)) of
                (Some lowerAsk, Some middleBid, Some upperAsk) \<Rightarrow>
                  Some \<lparr>rate64 = d_add (d_sub (Fin lowerAsk) (d_mul (Fin 2) (Fin middleBid)))
                                   (Fin upperAsk),
                        firstLegPremium64 = (if ty = CALL then lowerAsk else upperAsk)\<rparr>
              | _ \<Rightarrow> None)
      | _ \<Rightarrow> None)"

definition calculateValuePercent_binary64 :: "jsnum \<Rightarrow> jsnum \<Rightarrow> jsnum" where
  "calculateValuePercent_binary64 rate1 premium1 =
     (if js_le premium1 (Fin 0) then Fin 0
      else d_mul (d_div rate1 premium1) (Fin 100))"

text \<open>The value percentage of a priced butterfly.\<close>

definition value_percent_of :: "ButterflyResult64 \<Rightarrow> jsnum" where
  "value_percent_of result =
     calculateValuePercent_binary64 (rate64 result) (Fin (firstLegPremium64 result))"

section \<open>Rows in other shapes\<close>

text \<open>
  Two rows of one strike that carry nothing but a \<open>call_bid\<close> and a \<open>call_ask\<close>
  property, and a list in which one row carries a \<open>put_ltp\<close> of \<open>null\<close>.
\<close>

definition literal_split_rows :: "row list" where
  "literal_split_rows =
     [(new_entry 24000)\<lparr>call_bid := price 10\<rparr>,
      (new_entry 24000)\<lparr>call_ask := price 12\<rparr>]"

definition keyed_rows :: "row list" where
  "keyed_rows =
     [feed_row ''CE'' 24100 (price 70) Undefined Undefined,
      (feed_row ''CE'' 24000 (price 10) Undefined Undefined)\<lparr>put_ltp := Null\<rparr>,
      feed_row ''CE'' 24000 Undefined (price 12) Undefined]"

section \<open>Facts about sorting\<close>

lemma set_insert_cmp: "set (insert_cmp cmp x xs) = insert x (set xs)"
  by (induction xs) auto

lemma set_js_sort: "set (js_sort cmp xs) = set xs"
  unfolding js_sort_def by (induction xs) (auto simp: set_insert_cmp)

lemma length_insert_cmp: "length (insert_cmp cmp x xs) = Suc (length xs)"
  by (induction xs) auto

lemma length_js_sort: "length (js_sort cmp xs) = length xs"
  unfolding js_sort_def by (induction xs) (auto simp: length_insert_cmp)

lemma sorted_insert_cmp:
  assumes le: "\<And>a b. a \<in> A \<Longrightarrow> b \<in> A \<Longrightarrow> \<not> js_gt (cmp a b) (Fin 0) \<Longrightarrow> R a b"
    and ge: "\<And>a b. a \<in> A \<Longrightarrow> b \<in> A \<Longrightarrow> js_gt (cmp a b) (Fin 0) \<Longrightarrow> R b a"
    and tr: "\<And>a b c. a \<in> A \<Longrightarrow> b \<in> A \<Longrightarrow> c \<in> A \<Longrightarrow> R a b \<Longrightarrow> R b c \<Longrightarrow> R a c"
    and x: "x \<in> A" and xs: "set xs \<subseteq> A" and sorted: "sorted_wrt R xs"
  shows "sorted_wrt R (insert_cmp cmp x xs)"
  using xs sorted
proof (induction xs)
  case Nil
  then show ?case by simp
next
  case (Cons y ys)
  from Cons.prems have y: "y \<in> A" and ys: "set ys \<subseteq> A"
    and y_ys: "\<forall>z \<in> set ys. R y z" and s_ys: "sorted_wrt R ys"
    by simp_all
  show ?case
  proof (cases "js_gt (cmp x y) (Fin 0)")
    case True
    have "R y x" using ge[OF x y True] .
    moreover have "sorted_wrt R (insert_cmp cmp x ys)"
      using Cons.IH[OF ys s_ys] .
    ultimately show ?thesis
      using True y_ys by (simp add: set_insert_cmp)
  next
    case False
    have xy: "R x y" using le[OF x y False] .
    have "R x z" if z: "z \<in> set ys" for z
    proof -
      from z ys have "z \<in> A" by blast
      moreover from z y_ys have "R y z" by blast
      ultimately show ?thesis using tr[OF x y _ xy] by blast
    qed
    then show ?thesis
      using False xy y_ys s_ys by simp
  qed
qed

lemma sorted_js_sort:
  assumes le: "\<And>a b. a \<in> A \<Longrightarrow> b \<in> A \<Longrightarrow> \<not> js_gt (cmp a b) (Fin 0) \<Longrightarrow> R a b"
    and ge: "\<And>a b. a \<in> A \<Longrightarrow> b \<in> A \<Longrightarrow> js_gt (cmp a b) (Fin 0) \<Longrightarrow> R b a"
    and tr: "\<And>a b c. a \<in> A \<Longrightarrow> b \<in> A \<Longrightarrow> c \<in> A \<Longrightarrow> R a b \<Longrightarrow> R b c \<Longrightarrow> R a c"
    and xs: "set xs \<subseteq> A"
  shows "sorted_wrt R (js_sort cmp xs)"
  using xs
proof (induction xs)
  case Nil
  then show ?case by (simp add: js_sort_def)
next
  case (Cons x xs)
  from Cons.prems have x: "x \<in> A" and xs: "set xs \<subseteq> A" by simp_all
  have s: "sorted_wrt R (js_sort cmp xs)" using Cons.IH[OF xs] .
  have sub: "set (js_sort cmp xs) \<subseteq> A" using xs by (simp add: set_js_sort)
  have "sorted_wrt R (insert_cmp cmp x (js_sort cmp xs))"
    using le ge tr x sub s by (rule sorted_insert_cmp)
  then show ?case by (simp add: js_sort_def)
qed

section \<open>Facts about the ranker\<close>

lemma calculateValuePercent_Fin:
  "calculateValuePercent (Fin r) (Fin f) = (if f \<le> 0 then Fin 0 else Fin (r / f * 100))"
  by (simp add: calculateValuePercent_def js_le_def)

lemma candidate_SomeD:
  assumes "candidate optionData atm m ty g base = Some s"
  shows "\<exists>l mi u res. legs ty base g = (l, mi, u)
     \<and> \<not> (case ty of CALL \<Rightarrow> l < atm | PUT \<Rightarrow> u > atm)
     \<and> calculateButterflyRate l mi u optionData ty = Some res
     \<and> rate res > 0 \<and> rate res < firstLegPremium res * (1 / 2)
     \<and> js_le (calculateValuePercent (Fin (rate res)) (Fin (firstLegPremium res))) m
     \<and> js_gt (calculateValuePercent (Fin (rate res)) (Fin (firstLegPremium res))) (Fin 0)
     \<and> s = \<lparr>otype = ty, strikes = (l, mi, u), gap = g,
              legPremium = firstLegPremium res, butterflyRate = rate res,
              valuePercent = calculateValuePercent (Fin (rate res)) (Fin (firstLegPremium res)),
              distanceFromATM = math_round (\<bar>l - atm\<bar> / 50),
              recommendation = getRecommendation
                (calculateValuePercent (Fin (rate res)) (Fin (firstLegPremium res))),
              isNearATM = (\<bar>l - atm\<bar> \<le> 100), hasGoodGap = (g \<le> 100)\<rparr>"
proof -
  obtain l mi u where lg: "legs ty base g = (l, mi, u)"
    by (cases "legs ty base g") auto
  from assms lg obtain res where res: "calculateButterflyRate l mi u optionData ty = Some res"
    by (cases "calculateButterflyRate l mi u optionData ty")
      (simp_all add: candidate_def split: if_splits)
  from assms lg res show ?thesis
    by (simp add: candidate_def Let_def split: if_splits)
qed

lemma in_all_strategies:
  assumes "s \<in> set (all_strategies optionData ks atm m)"
  shows "\<exists>ty g base. candidate optionData atm m ty g base = Some s"
proof -
  from assms obtain ty g base where "s \<in> set (pushed optionData atm m ty g base)"
    unfolding all_strategies_def by auto
  then have "candidate optionData atm m ty g base = Some s"
    by (cases "candidate optionData atm m ty g base") (simp_all add: pushed_def)
  then show ?thesis by blast
qed


lemma example_strategies:
  "findBestStrategies example_chain (Fin 24070) (Fin 20) = [example_call, example_put]"
  by code_simp


lemma example_trades:
  "findBestTrades example_chain (Fin 24070) = [example_call, example_put]"
  by code_simp

section \<open>Properties of the classification rules\<close>

text \<open>
  C2. \<open>getDetailedRecommendation\<close> is total and follows the priority order of the
  specification: on every triple of numbers (NaN and the infinities included) it
  returns the label of the first rule of the priority list that applies, and AVOID
  when none does. A value percentage of 30 gives EXIT whatever the distance and gap.
\<close>

theorem getDetailedRecommendation_priority:
  "getDetailedRecommendation v d g = first_rule (priority_rules v d g)
   \<and> getDetailedRecommendation (Fin 30) d g = EXIT"
  by (simp add: getDetailedRecommendation_def priority_rules_def nearATM_def goodGap_def
      js_gt_def js_le_def Let_def)

text \<open>
  C10, as amended. \<open>getDetailedRecommendation\<close> returns AVOID exactly when the value
  percentage is NaN. On every other value percentage a rule before the last applies:
  above 20 the label is EXIT or VALUE_BREACH, and at 20 or below it is ENTRY,
  PROFIT_BOOKING, SCALE, HOLD or CHAIN_WARNING, whatever the distance and the gap.
\<close>

theorem getDetailedRecommendation_avoid_iff_nan:
  "(getDetailedRecommendation v d g = AVOID \<longleftrightarrow> v = NaN)
   \<and> (js_gt v (Fin 20) \<longrightarrow> getDetailedRecommendation v d g \<in> {EXIT, VALUE_BREACH})
   \<and> (js_le v (Fin 20) \<longrightarrow>
        getDetailedRecommendation v d g \<in> {ENTRY, PROFIT_BOOKING, SCALE, HOLD, CHAIN_WARNING})"
  by (cases v) (auto simp: getDetailedRecommendation_def Let_def js_gt_def js_le_def)

theorem getDetailedRecommendation_avoid_iff_nan_witness:
  "js_gt (Fin 22) (Fin 20) \<and> getDetailedRecommendation (Fin 22) (Fin 1) (Fin 50) = VALUE_BREACH
   \<and> js_le (Fin 18) (Fin 20) \<and> getDetailedRecommendation (Fin 18) (Fin 5) (Fin 150) = CHAIN_WARNING
   \<and> getDetailedRecommendation (Fin 18) (Fin 5) (Fin 150) \<noteq> AVOID"
  using getDetailedRecommendation_avoid_iff_nan[of "Fin 22" "Fin 1" "Fin 50"]
    getDetailedRecommendation_avoid_iff_nan[of "Fin 18" "Fin 5" "Fin 150"]
  by (simp add: getDetailedRecommendation_def Let_def js_gt_def js_le_def)

text \<open>
  With NaN as the value percentage every comparison of the chain is false and the
  last line returns AVOID.
\<close>

theorem getDetailedRecommendation_nan_counterexample:
  "getDetailedRecommendation NaN (Fin 0) (Fin 50) = AVOID"
  by (simp add: getDetailedRecommendation_def Let_def js_gt_def js_le_def)

section \<open>Properties of the strategy ranker\<close>





lemma candidate_finite_value:
  assumes "candidate optionData atm m ty g base = Some s"
  shows "\<exists>v. valuePercent s = Fin v"
proof -
  from candidate_SomeD[OF assms] obtain res :: ButterflyResult where
    "valuePercent s = calculateValuePercent (Fin (rate res)) (Fin (firstLegPremium res))"
    by force
  then show ?thesis by (simp add: calculateValuePercent_Fin)
qed

lemma by_value_then_distance_Fin:
  assumes "valuePercent a = Fin x" and "valuePercent b = Fin y"
  shows "js_gt (by_value_then_distance a b) (Fin 0)
     \<longleftrightarrow> y < x \<or> (x = y \<and> distanceFromATM b < distanceFromATM a)"
  using assms by (auto simp: by_value_then_distance_def js_neq_def js_sub_def js_gt_def)

lemma ranked_before_Fin:
  assumes "valuePercent a = Fin x" and "valuePercent b = Fin y"
  shows "ranked_before a b \<longleftrightarrow> x < y \<or> (x = y \<and> distanceFromATM a \<le> distanceFromATM b)"
  using assms by (simp add: ranked_before_def)

lemma sorted_by_value_then_distance:
  assumes "\<forall>s \<in> set xs. \<exists>v. valuePercent s = Fin v"
  shows "sorted_wrt ranked_before (js_sort by_value_then_distance xs)"
proof (rule sorted_js_sort[where A = "{s :: ButterflyStrategy. \<exists>v. valuePercent s = Fin v}"])
  fix a b
  assume "a \<in> {s :: ButterflyStrategy. \<exists>v. valuePercent s = Fin v}" "b \<in> {s :: ButterflyStrategy. \<exists>v. valuePercent s = Fin v}"
  then obtain x y where xy: "valuePercent a = Fin x" "valuePercent b = Fin y" by auto
  {
    assume "\<not> js_gt (by_value_then_distance a b) (Fin 0)"
    then show "ranked_before a b"
      unfolding by_value_then_distance_Fin[OF xy] ranked_before_Fin[OF xy] by auto
  }
  {
    assume "js_gt (by_value_then_distance a b) (Fin 0)"
    then show "ranked_before b a"
      unfolding by_value_then_distance_Fin[OF xy] ranked_before_Fin[OF xy(2) xy(1)] by auto
  }
next
  fix a b c
  assume "a \<in> {s :: ButterflyStrategy. \<exists>v. valuePercent s = Fin v}" "b \<in> {s :: ButterflyStrategy. \<exists>v. valuePercent s = Fin v}"
    "c \<in> {s :: ButterflyStrategy. \<exists>v. valuePercent s = Fin v}"
  then obtain x y z where
    xyz: "valuePercent a = Fin x" "valuePercent b = Fin y" "valuePercent c = Fin z" by auto
  assume "ranked_before a b" "ranked_before b c"
  then show "ranked_before a c"
    unfolding ranked_before_Fin[OF xyz(1) xyz(2)] ranked_before_Fin[OF xyz(2) xyz(3)]
      ranked_before_Fin[OF xyz(1) xyz(3)] by auto
next
  show "set xs \<subseteq> {s :: ButterflyStrategy. \<exists>v. valuePercent s = Fin v}" using assms by auto
qed

text \<open>
  C6. The list returned by \<open>findBestStrategies\<close> is sorted by ascending value
  percentage, and entries with the same value percentage by ascending distance from
  the ATM strike, for every raw chain, spot price and value bound.
\<close>

theorem findBestStrategies_sorted:
  "sorted_wrt ranked_before (findBestStrategies raw spot m)"
proof -
  let ?od = "transformOptionDataForButterfly raw"
  show ?thesis
  proof (cases "js_sort ascending (positive_strikes ?od)")
    case Nil
    then show ?thesis by (simp add: findBestStrategies_def Let_def)
  next
    case (Cons first rest)
    have "\<forall>s \<in> set (all_strategies ?od (first # rest) (atmStrike first rest spot) m).
            \<exists>v. valuePercent s = Fin v"
      using in_all_strategies candidate_finite_value by blast
    from sorted_by_value_then_distance[OF this] Cons show ?thesis
      by (simp add: findBestStrategies_def Let_def)
  qed
qed

theorem findBestStrategies_sorted_witness:
  "findBestStrategies example_chain (Fin 24070) (Fin 20) = [example_call, example_put]
   \<and> ranked_before example_call example_put"
  using findBestStrategies_sorted[of example_chain "Fin 24070" "Fin 20"]
  by (simp add: example_strategies)

text \<open>
  C7. \<open>findBestTrades\<close> returns at most 8 entries, and every entry has a value
  percentage of at most 15, a distance from the ATM strike of at most 2 and a gap of
  at most 100, for every raw chain and spot price.
\<close>

theorem findBestTrades_bounds:
  "length (findBestTrades raw spot) \<le> 8
   \<and> (\<forall>s \<in> set (findBestTrades raw spot).
         js_le (valuePercent s) (Fin 15) \<and> distanceFromATM s \<le> 2 \<and> gap s \<le> 100)"
proof
  show "length (findBestTrades raw spot) \<le> 8"
    by (simp add: findBestTrades_def)
next
  show "\<forall>s \<in> set (findBestTrades raw spot).
         js_le (valuePercent s) (Fin 15) \<and> distanceFromATM s \<le> 2 \<and> gap s \<le> 100"
  proof
    fix s
    assume "s \<in> set (findBestTrades raw spot)"
    then have "s \<in> set (filter (\<lambda>strategy. js_le (valuePercent strategy) (Fin 15)
                           \<and> distanceFromATM strategy \<le> 2
                           \<and> gap strategy \<le> 100)
          (findBestStrategies raw spot (Fin 15)))"
      unfolding findBestTrades_def by (rule in_set_takeD)
    then show "js_le (valuePercent s) (Fin 15) \<and> distanceFromATM s \<le> 2 \<and> gap s \<le> 100"
      by simp
  qed
qed

theorem findBestTrades_bounds_witness:
  "example_put \<in> set (findBestTrades example_chain (Fin 24070))
   \<and> length (findBestTrades example_chain (Fin 24070)) \<le> 8
   \<and> js_le (valuePercent example_put) (Fin 15)
   \<and> distanceFromATM example_put \<le> 2 \<and> gap example_put \<le> 100"
proof -
  have mem: "example_put \<in> set (findBestTrades example_chain (Fin 24070))"
    by (simp add: example_trades)
  from findBestTrades_bounds[of example_chain "Fin 24070"] mem show ?thesis
    by blast
qed



section \<open>Properties of the pricer\<close>

lemma nc_again: "toNumberOrNull (nc (nc a b) a) = toNumberOrNull (nc a b)"
  by (cases a; cases b) (simp_all add: toNumberOrNull_def)

lemma extract_quote_eq:
  "extract_quote r ty = \<lparr>leg_bid = bid_of r ty, leg_ask = ask_of r ty, leg_ltp = ltp_of r ty\<rparr>"
  by (cases ty)
    (simp_all add: extract_quote_def bid_of_def ask_of_def ltp_of_def nc_again
      side_bid_def side_ask_def side_ltp_def side_quote_def)

lemma or_else_eq: "or_else a b = (case a of Some x \<Rightarrow> Some x | None \<Rightarrow> b)"
  by (simp add: or_else_def split: option.splits)

lemma binary64_examples:
  "binary64 (1 / 10) = Fin (3602879701896397 / 36028797018963968)"
  "binary64 (2 ^ 53 + 1) = Fin (2 ^ 53)"
  "binary64 (2 ^ 53 + 3) = Fin (2 ^ 53 + 4)"
  "binary64 (- (1 / 3)) = Fin (- (6004799503160661 / 18014398509481984))"
  by code_simp+

lemma pricers_agree:
  "map_option firstLegPremium64
     (calculateButterflyRate_binary64 lowerStrike middleStrike upperStrike optionData ty)
   = map_option firstLegPremium
     (calculateButterflyRate lowerStrike middleStrike upperStrike optionData ty)"
  by (simp add: calculateButterflyRate_binary64_def calculateButterflyRate_def Let_def
      split: option.splits)

lemma binary64_80: "binary64 80 = Fin 80"
  by code_simp

lemma binary64_20: "binary64 20 = Fin 20"
  by code_simp

lemma binary64_115: "binary64 115 = Fin 115"
  by code_simp

lemma value_percent_115_100:
  "calculateValuePercent_binary64 (Fin 115) (Fin 100)
   = Fin (8092405580431359 / 70368744177664)"
  by code_simp

lemma pricer_example_binary64:
  "calculateButterflyRate_binary64 24000 24050 24100 pricer_example CALL
   = Some \<lparr>rate64 = Fin 115, firstLegPremium64 = 100\<rparr>"
  by code_simp

text \<open>
  C1, as amended. When the lower, middle and upper strikes are all in the chain and
  each of the three prices is there after the fallback to the last traded price (ask
  for the bought legs, bid for the sold middle leg), \<open>calculateButterflyRate\<close> returns
  as rate \<open>lowerAsk - 2 * middleBid + upperAsk\<close> evaluated in binary64 arithmetic, each
  operation rounded, which is the exact value when the three exact results are binary64
  numbers; the first-leg premium is \<open>lowerAsk\<close> for CALL and \<open>upperAsk\<close> for PUT. With
  100, 40 and 95 on the CALL side the rate is 115, the first-leg premium is 100, and
  the value percentage of that result is \<open>115 - 2^(-46)\<close>, the binary64 number just
  below 115, printed 114.99999999999999.
\<close>

theorem calculateButterflyRate_binary64_formula:
  assumes "find_strike optionData lowerStrike = Some lowerOption"
    and "find_strike optionData middleStrike = Some middleOption"
    and "find_strike optionData upperStrike = Some upperOption"
    and "bought_leg_price lowerOption ty = Some lowerAsk"
    and "sold_leg_price middleOption ty = Some middleBid"
    and "bought_leg_price upperOption ty = Some upperAsk"
  shows "calculateButterflyRate_binary64 lowerStrike middleStrike upperStrike optionData ty =
           Some \<lparr>rate64 = d_add (d_sub (Fin lowerAsk) (d_mul (Fin 2) (Fin middleBid)))
                            (Fin upperAsk),
                 firstLegPremium64 = (case ty of CALL \<Rightarrow> lowerAsk | PUT \<Rightarrow> upperAsk)\<rparr>
     \<and> (binary64 (2 * middleBid) = Fin (2 * middleBid)
        \<and> binary64 (lowerAsk - 2 * middleBid) = Fin (lowerAsk - 2 * middleBid)
        \<and> binary64 (lowerAsk - 2 * middleBid + upperAsk)
            = Fin (lowerAsk - 2 * middleBid + upperAsk) \<longrightarrow>
          map_option rate64
            (calculateButterflyRate_binary64 lowerStrike middleStrike upperStrike optionData ty)
          = Some (Fin (lowerAsk - 2 * middleBid + upperAsk)))
     \<and> (lowerAsk = 100 \<and> middleBid = 40 \<and> upperAsk = 95 \<and> ty = CALL \<longrightarrow>
          calculateButterflyRate_binary64 lowerStrike middleStrike upperStrike optionData ty =
            Some \<lparr>rate64 = Fin 115, firstLegPremium64 = 100\<rparr>
          \<and> map_option value_percent_of
              (calculateButterflyRate_binary64 lowerStrike middleStrike upperStrike optionData ty)
            = Some (Fin (8092405580431359 / 70368744177664)))"
proof -
  let ?result = "calculateButterflyRate_binary64 lowerStrike middleStrike upperStrike optionData ty"
  have main: "?result =
           Some \<lparr>rate64 = d_add (d_sub (Fin lowerAsk) (d_mul (Fin 2) (Fin middleBid)))
                            (Fin upperAsk),
                 firstLegPremium64 = (case ty of CALL \<Rightarrow> lowerAsk | PUT \<Rightarrow> upperAsk)\<rparr>"
    using assms
    by (cases ty)
      (simp_all add: calculateButterflyRate_binary64_def extract_quote_eq or_else_eq
        bought_leg_price_def sold_leg_price_def Let_def split: option.splits)
  have exact: "map_option rate64 ?result = Some (Fin (lowerAsk - 2 * middleBid + upperAsk))"
    if "binary64 (2 * middleBid) = Fin (2 * middleBid)"
      and "binary64 (lowerAsk - 2 * middleBid) = Fin (lowerAsk - 2 * middleBid)"
      and "binary64 (lowerAsk - 2 * middleBid + upperAsk)
            = Fin (lowerAsk - 2 * middleBid + upperAsk)"
    using that by (simp add: main d_add_def d_sub_def d_mul_def)
  have example: "?result = Some \<lparr>rate64 = Fin 115, firstLegPremium64 = 100\<rparr>
      \<and> map_option value_percent_of ?result = Some (Fin (8092405580431359 / 70368744177664))"
    if "lowerAsk = 100" and "middleBid = 40" and "upperAsk = 95" and "ty = CALL"
  proof -
    from main that have "?result = Some \<lparr>rate64 = Fin 115, firstLegPremium64 = 100\<rparr>"
      by (simp add: d_add_def d_sub_def d_mul_def binary64_80 binary64_20 binary64_115)
    then show ?thesis
      by (simp add: value_percent_of_def value_percent_115_100)
  qed
  from main exact example show ?thesis by blast
qed

theorem calculateButterflyRate_binary64_formula_witness:
  "find_strike pricer_example 24000 = Some ((new_entry 24000)\<lparr>call_ask := price 100\<rparr>)
   \<and> find_strike pricer_example 24050 = Some ((new_entry 24050)\<lparr>call_bid := price 40\<rparr>)
   \<and> find_strike pricer_example 24100 = Some ((new_entry 24100)\<lparr>call_ask := price 95\<rparr>)
   \<and> bought_leg_price ((new_entry 24000)\<lparr>call_ask := price 100\<rparr>) CALL = Some 100
   \<and> sold_leg_price ((new_entry 24050)\<lparr>call_bid := price 40\<rparr>) CALL = Some 40
   \<and> bought_leg_price ((new_entry 24100)\<lparr>call_ask := price 95\<rparr>) CALL = Some 95
   \<and> binary64 (2 * 40) = Fin (2 * 40)
   \<and> binary64 (100 - 2 * 40) = Fin (100 - 2 * 40)
   \<and> binary64 (100 - 2 * 40 + 95) = Fin (100 - 2 * 40 + 95)
   \<and> calculateButterflyRate_binary64 24000 24050 24100 pricer_example CALL =
       Some \<lparr>rate64 = Fin 115, firstLegPremium64 = 100\<rparr>
   \<and> map_option value_percent_of
        (calculateButterflyRate_binary64 24000 24050 24100 pricer_example CALL)
       = Some (Fin (8092405580431359 / 70368744177664))"
proof -
  have f1: "find_strike pricer_example 24000 = Some ((new_entry 24000)\<lparr>call_ask := price 100\<rparr>)"
    by (simp add: find_strike_def pricer_example_def new_entry_def)
  have f2: "find_strike pricer_example 24050 = Some ((new_entry 24050)\<lparr>call_bid := price 40\<rparr>)"
    by (simp add: find_strike_def pricer_example_def new_entry_def)
  have f3: "find_strike pricer_example 24100 = Some ((new_entry 24100)\<lparr>call_ask := price 95\<rparr>)"
    by (simp add: find_strike_def pricer_example_def new_entry_def)
  have p1: "bought_leg_price ((new_entry 24000)\<lparr>call_ask := price 100\<rparr>) CALL = Some 100"
    by (simp add: bought_leg_price_def ask_of_def side_ask_def toNumberOrNull_def price_def)
  have p2: "sold_leg_price ((new_entry 24050)\<lparr>call_bid := price 40\<rparr>) CALL = Some 40"
    by (simp add: sold_leg_price_def bid_of_def side_bid_def toNumberOrNull_def price_def)
  have p3: "bought_leg_price ((new_entry 24100)\<lparr>call_ask := price 95\<rparr>) CALL = Some 95"
    by (simp add: bought_leg_price_def ask_of_def side_ask_def toNumberOrNull_def price_def)
  have b: "binary64 (2 * 40) = Fin (2 * 40)" "binary64 (100 - 2 * 40) = Fin (100 - 2 * 40)"
    "binary64 (100 - 2 * 40 + 95) = Fin (100 - 2 * 40 + 95)"
    by (simp_all add: binary64_80 binary64_20 binary64_115)
  from calculateButterflyRate_binary64_formula[OF f1 f2 f3 p1 p2 p3] f1 f2 f3 p1 p2 p3 b
  show ?thesis by blast
qed

text \<open>
  With 100, 40 and 95 the quotient \<open>115 / 100\<close> rounds to a binary64 number below
  1.15, and its product with 100 rounds to \<open>115 - 2^(-46)\<close>: the value percentage is
  not 115.
\<close>

theorem calculateButterflyRate_binary64_counterexample:
  "calculateButterflyRate_binary64 24000 24050 24100 pricer_example CALL
     = Some \<lparr>rate64 = Fin 115, firstLegPremium64 = 100\<rparr>
   \<and> calculateValuePercent_binary64 (Fin 115) (Fin 100)
     = Fin (8092405580431359 / 70368744177664)
   \<and> calculateValuePercent_binary64 (Fin 115) (Fin 100) \<noteq> Fin 115"
  by (simp add: pricer_example_binary64 value_percent_115_100)

section \<open>Properties of the chain builder\<close>












section \<open>Properties of the normalizer\<close>

lemma last_non_null_snoc: "last_non_null (vs @ [v]) = nc v (last_non_null vs)"
  by (simp add: last_non_null_def)

lemma call_rows_snoc:
  "call_rows k (items @ [item]) =
     (if strike_price item = Some k \<and> isCall item
      then call_rows k items @ [item] else call_rows k items)"
  by (simp add: call_rows_def)

lemma put_rows_snoc:
  "put_rows k (items @ [item]) =
     (if strike_price item = Some k \<and> \<not> isCall item
      then put_rows k items @ [item] else put_rows k items)"
  by (simp add: put_rows_def)

lemma merged_from_new:
  assumes "\<forall>i \<in> set items. strike_price i \<noteq> Some k"
  shows "merged_from k items (new_entry k)"
proof -
  from assms have "call_rows k items = []" and "put_rows k items = []"
    by (simp_all add: call_rows_def put_rows_def)
  then show ?thesis
    by (simp add: merged_from_def new_entry_def last_non_null_def)
qed

lemma merged_from_call:
  assumes "merged_from k items e" and "strike_price item = Some k" and "isCall item"
  shows "merged_from k (items @ [item]) (merge_call item e)"
  using assms
  by (simp add: merged_from_def merge_call_def call_rows_snoc put_rows_snoc
      last_non_null_snoc item_bid_def item_ask_def item_oi_def)

lemma merged_from_put:
  assumes "merged_from k items e" and "strike_price item = Some k" and "\<not> isCall item"
  shows "merged_from k (items @ [item]) (merge_put item e)"
  using assms
  by (simp add: merged_from_def merge_put_def call_rows_snoc put_rows_snoc
      last_non_null_snoc item_bid_def item_ask_def item_oi_def)

lemma merged_from_other:
  assumes "merged_from k items e" and "strike_price item \<noteq> Some k"
  shows "merged_from k (items @ [item]) e"
  using assms by (simp add: merged_from_def call_rows_snoc put_rows_snoc)

lemma map_inv_step:
  assumes "map_inv items m"
  shows "map_inv (items @ [item]) (add_item m item)"
proof (cases "strike_price item")
  case None
  with assms show ?thesis
    by (auto simp: map_inv_def add_item_def intro: merged_from_other)
next
  case (Some k0)
  define e0 where "e0 = (case map_of m k0 of None \<Rightarrow> new_entry k0 | Some e \<Rightarrow> e)"
  define e1 where "e1 = (if isCall item then merge_call item e0 else merge_put item e0)"
  have add: "add_item m item = AList.update k0 e1 m"
    using Some by (simp add: add_item_def e0_def e1_def Let_def)
  have e0: "merged_from k0 items e0"
  proof (cases "map_of m k0")
    case None
    with assms have "\<forall>i \<in> set items. strike_price i \<noteq> Some k0"
      by (simp add: map_inv_def)
    from merged_from_new[OF this] None show ?thesis by (simp add: e0_def)
  next
    case (Some e)
    with assms show ?thesis by (simp add: map_inv_def e0_def)
  qed
  have e1: "merged_from k0 (items @ [item]) e1"
    using e0 Some by (simp add: e1_def merged_from_call merged_from_put)
  have d: "distinct (map fst (AList.update k0 e1 m))"
    using assms by (simp add: map_inv_def distinct_update)
  have mo: "map_of (AList.update k0 e1 m) = (map_of m)(k0 \<mapsto> e1)"
    by (rule update_conv')
  have dom: "map_of (AList.update k0 e1 m) k = None
      \<longleftrightarrow> (\<forall>i \<in> set (items @ [item]). strike_price i \<noteq> Some k)" for k
    using assms Some by (auto simp: mo map_inv_def)
  have vals: "merged_from k (items @ [item]) e"
    if "map_of (AList.update k0 e1 m) k = Some e" for k e
  proof (cases "k = k0")
    case True
    with that e1 show ?thesis by (simp add: mo)
  next
    case False
    with that have "map_of m k = Some e" by (simp add: mo)
    with assms have "merged_from k items e" by (simp add: map_inv_def)
    moreover from False Some have "strike_price item \<noteq> Some k" by simp
    ultimately show ?thesis by (rule merged_from_other)
  qed
  from d dom vals show ?thesis
    unfolding add map_inv_def by blast
qed

lemma map_inv_foldl: "map_inv items (foldl add_item [] items)"
proof (induction items rule: rev_induct)
  case Nil
  show ?case by (simp add: map_inv_def)
next
  case (snoc item items)
  from map_inv_step[OF snoc] show ?case by simp
qed

lemma distinct_map_insert_cmp:
  "distinct (map f (insert_cmp cmp x xs)) = distinct (map f (x # xs))"
  by (induction xs) (auto simp: set_insert_cmp)

lemma distinct_map_js_sort: "distinct (map f (js_sort cmp xs)) = distinct (map f xs)"
proof (induction xs)
  case Nil
  show ?case by (simp add: js_sort_def)
next
  case (Cons x xs)
  have "js_sort cmp (x # xs) = insert_cmp cmp x (js_sort cmp xs)"
    by (simp add: js_sort_def)
  with Cons show ?case
    by (simp add: distinct_map_insert_cmp set_js_sort)
qed

lemma sorted_wrt_strict:
  assumes "sorted_wrt R xs" and "distinct (map f xs)"
    and "\<And>a b. R a b \<Longrightarrow> f a \<noteq> f b \<Longrightarrow> Q a b"
  shows "sorted_wrt Q xs"
  using assms(1,2)
proof (induction xs)
  case Nil
  show ?case by simp
next
  case (Cons x xs)
  then have "\<forall>y \<in> set xs. R x y \<and> f x \<noteq> f y" by auto
  with assms(3) have "\<forall>y \<in> set xs. Q x y" by blast
  with Cons show ?case by simp
qed

lemma sorted_by_strike:
  assumes "\<forall>e \<in> set xs. strike_price e \<noteq> None"
  shows "sorted_wrt strike_le (js_sort by_strike xs)"
proof (rule sorted_js_sort[where A = "{e :: row. strike_price e \<noteq> None}"])
  fix a b :: row
  assume "a \<in> {e. strike_price e \<noteq> None}" "b \<in> {e. strike_price e \<noteq> None}"
  then obtain x y where xy: "strike_price a = Some x" "strike_price b = Some y" by auto
  then have gt: "js_gt (by_strike a b) (Fin 0) \<longleftrightarrow> y < x"
    by (simp add: by_strike_def strike_num_def js_sub_def js_gt_def)
  {
    assume "\<not> js_gt (by_strike a b) (Fin 0)"
    with gt xy show "strike_le a b" by (simp add: strike_le_def)
  }
  {
    assume "js_gt (by_strike a b) (Fin 0)"
    with gt xy show "strike_le b a" by (simp add: strike_le_def)
  }
next
  fix a b c :: row
  assume "strike_le a b" "strike_le b c"
  then show "strike_le a c"
    by (auto simp: strike_le_def split: option.splits)
next
  show "set xs \<subseteq> {e. strike_price e \<noteq> None}" using assms by auto
qed

lemma merged_from_options_only:
  assumes "k \<noteq> - 1"
  shows "merged_from k (filter (\<lambda>item. strike_price item \<noteq> Some (- 1)) rawData) e
         = merged_from k rawData e"
proof -
  have "call_rows k (filter (\<lambda>item. strike_price item \<noteq> Some (- 1)) rawData) = call_rows k rawData"
    and "put_rows k (filter (\<lambda>item. strike_price item \<noteq> Some (- 1)) rawData) = put_rows k rawData"
    using assms by (auto simp: call_rows_def put_rows_def intro!: filter_cong)
  then show ?thesis by (simp add: merged_from_def)
qed

lemma transform_raw:
  assumes "\<not> already_transformed rawData"
  shows "transformOptionDataForButterfly rawData =
     js_sort by_strike (map snd (foldl add_item []
       (filter (\<lambda>item. strike_price item \<noteq> Some (- 1)) rawData)))"
  using assms by (simp add: transformOptionDataForButterfly_def Let_def)

lemma transform_entries:
  assumes "\<not> already_transformed rawData"
    and "e \<in> set (transformOptionDataForButterfly rawData)"
  shows "\<exists>k. merged_from k rawData e"
proof -
  define items where "items = filter (\<lambda>item. strike_price item \<noteq> Some (- 1)) rawData"
  define m where "m = foldl add_item [] items"
  have inv: "map_inv items m" unfolding m_def by (rule map_inv_foldl)
  from inv have dist: "distinct (map fst m)"
    unfolding map_inv_def by blast
  from assms have "e \<in> set (js_sort by_strike (map snd m))"
    by (simp add: transform_raw m_def items_def)
  then have "e \<in> snd ` set m" by (simp add: set_js_sort)
  then obtain k where "(k, e) \<in> set m" by force
  with dist have me: "map_of m k = Some e" by (simp only: map_of_eq_Some_iff)
  with inv have mf: "merged_from k items e"
    unfolding map_inv_def by blast
  from inv have "map_of m k = None \<longleftrightarrow> (\<forall>i \<in> set items. strike_price i \<noteq> Some k)"
    unfolding map_inv_def by blast
  with me obtain i where "i \<in> set items" and "strike_price i = Some k" by auto
  then have "k \<noteq> - 1" by (auto simp: items_def)
  from mf show ?thesis
    unfolding items_def merged_from_options_only[OF \<open>k \<noteq> - 1\<close>] by blast
qed

lemma transform_sorted:
  assumes "\<not> already_transformed rawData"
  shows "sorted_wrt strike_below (transformOptionDataForButterfly rawData)"
proof -
  define items where "items = filter (\<lambda>item. strike_price item \<noteq> Some (- 1)) rawData"
  define m where "m = foldl add_item [] items"
  have inv: "map_inv items m" unfolding m_def by (rule map_inv_foldl)
  from inv have dist: "distinct (map fst m)"
    unfolding map_inv_def by blast
  from inv have mf: "merged_from k items e" if "map_of m k = Some e" for k e
    using that unfolding map_inv_def by blast
  have key: "strike_price (snd p) = Some (fst p)" if "p \<in> set m" for p
  proof -
    from that have "(fst p, snd p) \<in> set m" by simp
    with dist have "map_of m (fst p) = Some (snd p)"
      by (simp only: map_of_eq_Some_iff)
    from mf[OF this] show ?thesis by (simp add: merged_from_def)
  qed
  have eq: "map (strike_price \<circ> snd) m = map (Some \<circ> fst) m"
    by (rule map_cong[OF refl]) (simp add: key)
  have "distinct (map Some ks)" if "distinct ks" for ks :: "rat list"
    using that by (simp add: distinct_map)
  from this[OF dist] have "distinct (map (Some \<circ> fst) m)"
    by (simp only: map_map)
  then have "distinct (map (strike_price \<circ> snd) m)"
    by (simp only: eq)
  then have "distinct (map strike_price (map snd m))"
    by (simp only: map_map)
  then have d: "distinct (map strike_price (js_sort by_strike (map snd m)))"
    by (simp only: distinct_map_js_sort)
  have "\<forall>e \<in> set (map snd m). strike_price e \<noteq> None"
    using key by auto
  from sorted_by_strike[OF this]
  have "sorted_wrt strike_le (js_sort by_strike (map snd m))" .
  from this d have "sorted_wrt strike_below (js_sort by_strike (map snd m))"
  proof (rule sorted_wrt_strict)
    fix a b :: row
    assume "strike_le a b" and "strike_price a \<noteq> strike_price b"
    then show "strike_below a b"
      by (cases "strike_price a"; cases "strike_price b")
        (simp_all add: strike_le_def strike_below_def)
  qed
  with assms show ?thesis by (simp add: transform_raw m_def items_def)
qed

lemma transform_complete:
  assumes "\<not> already_transformed rawData"
    and "item \<in> set rawData" and "strike_price item = Some k" and "k \<noteq> - 1"
  shows "\<exists>e \<in> set (transformOptionDataForButterfly rawData). strike_price e = Some k"
proof -
  define items where "items = filter (\<lambda>item. strike_price item \<noteq> Some (- 1)) rawData"
  define m where "m = foldl add_item [] items"
  have inv: "map_inv items m" unfolding m_def by (rule map_inv_foldl)
  from assms(2,3,4) have "item \<in> set items" by (simp add: items_def)
  with assms(3) have "\<not> (\<forall>i \<in> set items. strike_price i \<noteq> Some k)" by blast
  moreover from inv have "map_of m k = None \<longleftrightarrow> (\<forall>i \<in> set items. strike_price i \<noteq> Some k)"
    unfolding map_inv_def by blast
  ultimately obtain e where e: "map_of m k = Some e" by blast
  from inv e have "merged_from k items e"
    unfolding map_inv_def by blast
  then have k: "strike_price e = Some k" by (simp add: merged_from_def)
  from e have "(k, e) \<in> set m" by (rule map_of_SomeD)
  then have "snd (k, e) \<in> snd ` set m" by (rule imageI)
  then have "e \<in> set (js_sort by_strike (map snd m))"
    by (simp add: set_js_sort)
  then have "e \<in> set (transformOptionDataForButterfly rawData)"
    using assms(1) by (simp add: transform_raw m_def items_def)
  with k show ?thesis by blast
qed

lemma split_rows_transformed:
  assumes "k \<noteq> - 1"
  shows "transformOptionDataForButterfly (split_rows k b a) =
     [(new_entry k)\<lparr>call_ltp := Undefined, call_oi := Undefined,
        call_bid := Num b, call_ask := Num a,
        CE := Some \<lparr>bidprice = Num b, askprice = Num a, quote_ltp = Undefined\<rparr>\<rparr>]"
  using assms
  by (simp add: transformOptionDataForButterfly_def already_transformed_def split_rows_def
      feed_row_def new_entry_def add_item_def isCall_def merge_call_def opt_field_def
      js_sort_def Let_def)

lemma literal_split_rows_transformed:
  "transformOptionDataForButterfly literal_split_rows =
     [(new_entry 24000)
        \<lparr>PE := Some \<lparr>bidprice = Undefined, askprice = Undefined, quote_ltp = Undefined\<rparr>\<rparr>]"
  by code_simp

lemma literal_split_rows_raw: "\<not> already_transformed literal_split_rows"
  by (simp add: already_transformed_def literal_split_rows_def new_entry_def)

lemma keyed_rows_transformed: "transformOptionDataForButterfly keyed_rows = keyed_rows"
  by code_simp

lemma keyed_rows_strikes:
  "map strike_price (transformOptionDataForButterfly keyed_rows)
   = [Some 24100, Some 24000, Some 24000]"
  by code_simp

lemma literal_split_rows_fields:
  "map call_bid (transformOptionDataForButterfly literal_split_rows) = [Undefined]"
  "map call_ask (transformOptionDataForButterfly literal_split_rows) = [Undefined]"
  by (simp_all add: literal_split_rows_transformed new_entry_def)

lemma keyed_rows_keyed: "already_transformed keyed_rows"
  by (simp add: already_transformed_def keyed_rows_def feed_row_def new_entry_def)

text \<open>
  Two rows with only a \<open>call_bid\<close> and only a \<open>call_ask\<close> property have no side
  marker: they are merged into one record whose call bid and call ask are both
  absent. And a list with a \<open>put_ltp\<close> key comes back as it is, neither merged nor
  sorted.
\<close>

theorem transformOptionDataForButterfly_counterexample:
  "map call_bid (transformOptionDataForButterfly literal_split_rows) = [Undefined]
   \<and> map call_ask (transformOptionDataForButterfly literal_split_rows) = [Undefined]
   \<and> map strike_price (transformOptionDataForButterfly keyed_rows)
       = [Some 24100, Some 24000, Some 24000]"
  by (simp only: literal_split_rows_fields keyed_rows_strikes simp_thms)

text \<open>
  C9, as amended. A list in which some row carries \<open>call_ltp\<close> or \<open>put_ltp\<close> is
  returned as it is, without the rows of strike \<open>-1\<close>. On every other list the
  normalizer returns one strike record per strike, sorted by strictly ascending
  strike, with a record for every strike of the feed but the sentinel \<open>-1\<close>. A row is
  a call row when its \<open>option_type\<close> is CE or its symbol contains CE, and a put row
  otherwise. Every call field of a record is the last value among the call rows of its
  strike that is neither absent nor null, read from the row's \<open>ltp\<close>,
  \<open>open_interest\<close> or \<open>oi\<close>, \<open>bid_price\<close> or \<open>bid\<close>, \<open>ask_price\<close> or \<open>ask\<close>, and every
  put field likewise among the put rows: an absent field never overwrites a value set
  before. So two call rows of one strike, the first with only a \<open>bid_price\<close> and the
  second with only an \<open>ask_price\<close>, give one record that holds both as \<open>call_bid\<close>
  and \<open>call_ask\<close>.
\<close>

theorem transformOptionDataForButterfly_merges:
  "(already_transformed rawData \<longrightarrow>
      transformOptionDataForButterfly rawData
        = filter (\<lambda>d. strike_price d \<noteq> Some (- 1)) rawData)
   \<and> (\<not> already_transformed rawData \<longrightarrow>
      sorted_wrt strike_below (transformOptionDataForButterfly rawData)
      \<and> (\<forall>e \<in> set (transformOptionDataForButterfly rawData). \<exists>k. merged_from k rawData e)
      \<and> (\<forall>item \<in> set rawData. \<forall>k. strike_price item = Some k \<and> k \<noteq> - 1 \<longrightarrow>
            (\<exists>e \<in> set (transformOptionDataForButterfly rawData). strike_price e = Some k)))
   \<and> (k0 \<noteq> - 1 \<longrightarrow>
        (\<exists>e. transformOptionDataForButterfly (split_rows k0 b a) = [e]
           \<and> strike_price e = Some k0 \<and> call_bid e = Num b \<and> call_ask e = Num a))"
proof (intro conjI impI ballI allI)
  assume "already_transformed rawData"
  then show "transformOptionDataForButterfly rawData
        = filter (\<lambda>d. strike_price d \<noteq> Some (- 1)) rawData"
    by (simp add: transformOptionDataForButterfly_def)
next
  assume "\<not> already_transformed rawData"
  then show "sorted_wrt strike_below (transformOptionDataForButterfly rawData)"
    by (rule transform_sorted)
next
  fix e
  assume "\<not> already_transformed rawData"
    and "e \<in> set (transformOptionDataForButterfly rawData)"
  then show "\<exists>k. merged_from k rawData e"
    by (rule transform_entries)
next
  fix item k
  assume "\<not> already_transformed rawData" and "item \<in> set rawData"
    and "strike_price item = Some k \<and> k \<noteq> - 1"
  then show "\<exists>e \<in> set (transformOptionDataForButterfly rawData). strike_price e = Some k"
    using transform_complete by blast
next
  assume "k0 \<noteq> - 1"
  from split_rows_transformed[OF this, of b a]
  show "\<exists>e. transformOptionDataForButterfly (split_rows k0 b a) = [e]
           \<and> strike_price e = Some k0 \<and> call_bid e = Num b \<and> call_ask e = Num a"
    by (simp add: new_entry_def)
qed

theorem transformOptionDataForButterfly_merges_witness:
  "already_transformed keyed_rows
   \<and> transformOptionDataForButterfly keyed_rows
       = filter (\<lambda>d. strike_price d \<noteq> Some (- 1)) keyed_rows
   \<and> \<not> already_transformed example_chain
   \<and> sorted_wrt strike_below (transformOptionDataForButterfly example_chain)
   \<and> map strike_price (transformOptionDataForButterfly example_chain)
       = [Some 23950, Some 24000, Some 24050, Some 24100, Some 24150]
   \<and> (24000 :: rat) \<noteq> - 1
   \<and> (\<exists>e. transformOptionDataForButterfly (split_rows 24000 (Fin 10) (Fin 12)) = [e]
         \<and> strike_price e = Some 24000
         \<and> call_bid e = Num (Fin 10) \<and> call_ask e = Num (Fin 12))"
proof -
  have raw: "\<not> already_transformed example_chain"
    by (simp add: already_transformed_def example_chain_def feed_row_def new_entry_def)
  have k: "(24000 :: rat) \<noteq> - 1" by simp
  have strikes: "map strike_price (transformOptionDataForButterfly example_chain)
       = [Some 23950, Some 24000, Some 24050, Some 24100, Some 24150]"
    by code_simp
  from transformOptionDataForButterfly_merges[of example_chain 24000 "Fin 10" "Fin 12"]
    transformOptionDataForButterfly_merges[of keyed_rows 24000 "Fin 10" "Fin 12"]
    raw k strikes keyed_rows_keyed
  show ?thesis by blast
qed

end
